theory Spec2Isabelle
  imports Main "HOL-Library.Word"
begin

section \<open>Ms. Pacman modifications (hackatari/games/mspacman.py)\<close>

subsection \<open>Errors and the emulator memory\<close>

text \<open>
  The Python exceptions the module can meet. \<open>ValueError\<close> carries its message: the
  module raises one of its own (\<open>Invalid Number of Power Pills\<close>) and the builtin
  \<open>int()\<close> raises another for a string that is not a number.
\<close>

datatype error = IndexError | ValueError string | AttributeError

definition ebind :: "error + 'a \<Rightarrow> ('a \<Rightarrow> error + 'b) \<Rightarrow> error + 'b" where
  "ebind r f = (case r of Inl e \<Rightarrow> Inl e | Inr x \<Rightarrow> f x)"

type_synonym u8 = "8 word"

text \<open>The emulator memory: a sequence of byte cells (128 for the Atari 2600).\<close>

type_synonym ram = "u8 list"

text \<open>
  Modelled from the spec: the memory accessor \<open>self.get_ram()\<close> / \<open>self.set_ram(i, v)\<close>
  of the environment object, which lives outside the two source files.  The spec gives
  \<open>read() -> ordered sequence of integer (0-255)\<close> and \<open>write(offset, value)\<close>; an offset
  outside the memory is an error here rather than an unspecified value.
  \<open>ram_at ram i\<close> is \<open>self.get_ram()[i]\<close>.
\<close>

definition ram_at :: "ram \<Rightarrow> nat \<Rightarrow> error + u8" where
  "ram_at ram i = (if i < length ram then Inr (ram ! i) else Inl IndexError)"

definition set_ram :: "nat \<Rightarrow> u8 \<Rightarrow> ram \<Rightarrow> error + ram" where
  "set_ram i v ram = (if i < length ram then Inr (ram[i := v]) else Inl IndexError)"

subsection \<open>Module state\<close>

text \<open>
  A value \<open>LAST_PP_STATUS\<close> can hold: a Python integer (the literals \<open>4\<close> at import and
  \<open>63\<close> after a reset), or the unsigned byte read from cell 117, which line 184 stores
  as it is.  Arithmetic on a Python integer is unbounded.  A byte combined with the
  literal \<open>3\<close> stays a byte and wraps around modulo 256 (the rule of numpy's unsigned
  byte scalars for an operation with a Python integer literal), so \<open>LAST_PP_STATUS - 3\<close> of a
  stored 1 is 254 and \<open>LAST_PP_STATUS + 3\<close> of a stored 254 is 1.  Comparisons are by
  value.
\<close>

datatype pyint = PyInt int | UInt8 u8

fun pyint_val :: "pyint \<Rightarrow> int" where
  "pyint_val (PyInt n) = n"
| "pyint_val (UInt8 w) = uint w"

text \<open>\<open>x - k\<close> and \<open>x + k\<close> for a literal \<open>k\<close> in 0-255.\<close>

fun py_sub :: "pyint \<Rightarrow> u8 \<Rightarrow> pyint" where
  "py_sub (PyInt n) k = PyInt (n - uint k)"
| "py_sub (UInt8 w) k = UInt8 (w - k)"

fun py_add :: "pyint \<Rightarrow> u8 \<Rightarrow> pyint" where
  "py_add (PyInt n) k = PyInt (n + uint k)"
| "py_add (UInt8 w) k = UInt8 (w + k)"

text \<open>\<open>x < c\<close> and \<open>c < x\<close> for a byte \<open>c\<close> read from memory.\<close>

fun py_less_byte :: "pyint \<Rightarrow> u8 \<Rightarrow> bool" where
  "py_less_byte (PyInt n) c = (n < uint c)"
| "py_less_byte (UInt8 w) c = (w < c)"

fun byte_less_py :: "u8 \<Rightarrow> pyint \<Rightarrow> bool" where
  "byte_less_py c (PyInt n) = (uint c < n)"
| "byte_less_py c (UInt8 w) = (c < w)"

text \<open>
  The module-level globals.  The toggles start as \<open>0\<close> and are only ever set to \<open>True\<close>;
  they are read for their truth value alone.
\<close>

record globals =
  TOGGLE_ORANGE :: bool
  TOGGLE_CYAN :: bool
  TOGGLE_PINK :: bool
  TOGGLE_RED :: bool
  NUMBER_POWER_PILLS :: int
  LAST_PP_STATUS :: pyint
  IS_INVERTED :: bool

definition initial_globals :: globals where
  "initial_globals =
     \<lparr>TOGGLE_ORANGE = False, TOGGLE_CYAN = False, TOGGLE_PINK = False, TOGGLE_RED = False,
      NUMBER_POWER_PILLS = 4, LAST_PP_STATUS = PyInt 4, IS_INVERTED = False\<rparr>"

subsection \<open>Helpers\<close>

definition make_edible :: "nat \<Rightarrow> u8 \<Rightarrow> nat \<Rightarrow> u8 \<Rightarrow> nat \<Rightarrow> ram \<Rightarrow> error + ram" where
  "make_edible ghost_number x_pos ram_x y_pos ram_y ram =
     ebind (set_ram ghost_number 130 ram) (\<lambda>ram.
     ebind (set_ram ram_x x_pos ram) (\<lambda>ram.
     set_ram ram_y y_pos ram))"

definition set_start_condition :: "ram \<Rightarrow> error + ram" where
  "set_start_condition ram =
     ebind (make_edible 1 120 6 50 12 ram) (\<lambda>ram.
     ebind (make_edible 2 100 7 50 13 ram) (\<lambda>ram.
     ebind (make_edible 3 80 8 50 14 ram) (\<lambda>ram.
     ebind (make_edible 4 60 9 50 15 ram) (\<lambda>ram.
     set_ram 116 255 ram))))"

text \<open>The loop \<open>i = 1; while i < 5: self.set_ram(i, 0); i += 1\<close>, entered at \<open>i\<close>.\<close>

function inverted_power_pill_while :: "nat \<Rightarrow> ram \<Rightarrow> error + ram" where
  "inverted_power_pill_while i ram =
     (if i < 5
      then ebind (set_ram i 0 ram) (\<lambda>ram. inverted_power_pill_while (i + 1) ram)
      else Inr ram)"
  by pat_completeness auto
termination
  by (relation "measure (\<lambda>(i, ram). 5 - i)") auto

declare inverted_power_pill_while.simps [simp del]

definition inverted_power_pill :: "ram \<Rightarrow> error + ram" where
  "inverted_power_pill ram =
     ebind (inverted_power_pill_while 1 ram) (\<lambda>ram.
     set_ram 116 62 ram)"

text \<open>The loop \<open>i = 1; while i < 5: self.set_ram(i, 130); i += 1\<close>, entered at \<open>i\<close>.\<close>

function power_pill_is_done_while :: "nat \<Rightarrow> ram \<Rightarrow> error + ram" where
  "power_pill_is_done_while i ram =
     (if i < 5
      then ebind (set_ram i 130 ram) (\<lambda>ram. power_pill_is_done_while (i + 1) ram)
      else Inr ram)"
  by pat_completeness auto
termination
  by (relation "measure (\<lambda>(i, ram). 5 - i)") auto

declare power_pill_is_done_while.simps [simp del]

definition power_pill_is_done :: "ram \<Rightarrow> error + ram" where
  "power_pill_is_done ram =
     ebind (power_pill_is_done_while 1 ram) (\<lambda>ram.
     set_ram 116 190 ram)"

subsection \<open>The rules\<close>

definition static_ghosts :: "globals \<Rightarrow> ram \<Rightarrow> error + ram" where
  "static_ghosts g ram =
     ebind (if TOGGLE_ORANGE g
            then ebind (set_ram 6 93 ram) (\<lambda>ram. set_ram 12 80 ram)
            else Inr ram) (\<lambda>ram.
     ebind (if TOGGLE_CYAN g
            then ebind (set_ram 7 83 ram) (\<lambda>ram. set_ram 13 80 ram)
            else Inr ram) (\<lambda>ram.
     ebind (if TOGGLE_PINK g
            then ebind (set_ram 8 93 ram) (\<lambda>ram. set_ram 14 67 ram)
            else Inr ram) (\<lambda>ram.
     if TOGGLE_RED g
     then ebind (set_ram 9 83 ram) (\<lambda>ram. set_ram 15 67 ram)
     else Inr ram)))"

definition number_power_pills :: "globals \<Rightarrow> ram \<Rightarrow> error + ram" where
  "number_power_pills g ram =
     (if NUMBER_POWER_PILLS g = 0 then
        ebind (set_ram 62 80 ram) (\<lambda>ram.
        ebind (set_ram 95 80 ram) (\<lambda>ram.
        set_ram 117 0 ram))
      else if NUMBER_POWER_PILLS g = 1 then
        ebind (set_ram 62 64 ram) (\<lambda>ram.
        ebind (set_ram 95 80 ram) (\<lambda>ram.
        set_ram 117 8 ram))
      else if NUMBER_POWER_PILLS g = 2 then
        ebind (set_ram 62 0 ram) (\<lambda>ram.
        ebind (set_ram 95 80 ram) (\<lambda>ram.
        set_ram 117 40 ram))
      else if NUMBER_POWER_PILLS g = 3 then
        ebind (set_ram 62 0 ram) (\<lambda>ram.
        ebind (set_ram 95 64 ram) (\<lambda>ram.
        set_ram 117 46 ram))
      else Inr ram)"

definition edible_ghosts :: "ram \<Rightarrow> error + ram" where
  "edible_ghosts ram =
     ebind (ram_at ram 116) (\<lambda>current_timer.
     ebind (ram_at ram 1) (\<lambda>current_orange.
     ebind (ram_at ram 2) (\<lambda>current_cyan.
     ebind (ram_at ram 3) (\<lambda>current_pink.
     ebind (ram_at ram 4) (\<lambda>current_red.
     ebind (if current_timer < 250 then set_ram 116 255 ram else Inr ram) (\<lambda>ram.
     ebind (if current_orange = 112 then make_edible 1 120 6 50 12 ram else Inr ram) (\<lambda>ram.
     ebind (if current_cyan = 112 then make_edible 2 100 7 50 13 ram else Inr ram) (\<lambda>ram.
     ebind (if current_pink = 112 then make_edible 3 80 8 50 14 ram else Inr ram) (\<lambda>ram.
     if current_red = 112 then make_edible 4 60 9 50 15 ram else Inr ram)))))))))"

definition inverted_ms_pacman_reset :: "globals \<Rightarrow> ram \<Rightarrow> error + globals \<times> ram" where
  "inverted_ms_pacman_reset g ram =
     ebind (set_start_condition ram) (\<lambda>ram.
     Inr (g\<lparr>LAST_PP_STATUS := PyInt 63, IS_INVERTED := False\<rparr>, ram))"

definition inverted_ms_pacman :: "globals \<Rightarrow> ram \<Rightarrow> error + globals \<times> ram" where
  "inverted_ms_pacman g ram =
     ebind (ram_at ram 117) (\<lambda>current_pp_status.
     ebind (ram_at ram 116) (\<lambda>current_timer.
     ebind (ram_at ram 1) (\<lambda>current_orange.
     ebind (ram_at ram 2) (\<lambda>current_cyan.
     ebind (ram_at ram 3) (\<lambda>current_pink.
     ebind (ram_at ram 4) (\<lambda>current_red.
     ebind (if current_timer < 250 \<and> IS_INVERTED g = False
            then set_ram 116 255 ram else Inr ram) (\<lambda>ram.
     ebind (if \<not> (py_less_byte (py_sub (LAST_PP_STATUS g) 3) current_pp_status
                  \<and> byte_less_py current_pp_status (py_add (LAST_PP_STATUS g) 3))
            then ebind (inverted_power_pill ram) (\<lambda>ram.
                 Inr (g\<lparr>IS_INVERTED := True, LAST_PP_STATUS := UInt8 current_pp_status\<rparr>,
                      ram))
            else Inr (g, ram)) (\<lambda>(g, ram).
     ebind (if current_timer = 0
            then ebind (power_pill_is_done ram) (\<lambda>ram. Inr (g\<lparr>IS_INVERTED := False\<rparr>, ram))
            else Inr (g, ram)) (\<lambda>(g, ram).
     ebind (if current_orange = 112 \<and> \<not> IS_INVERTED g
            then make_edible 1 120 6 50 12 ram else Inr ram) (\<lambda>ram.
     ebind (if current_cyan = 112 \<and> \<not> IS_INVERTED g
            then make_edible 2 100 7 50 13 ram else Inr ram) (\<lambda>ram.
     ebind (if current_pink = 112 \<and> \<not> IS_INVERTED g
            then make_edible 3 80 8 50 14 ram else Inr ram) (\<lambda>ram.
     ebind (if current_red = 112 \<and> \<not> IS_INVERTED g
            then make_edible 4 60 9 50 15 ram else Inr ram) (\<lambda>ram.
     Inr (g, ram))))))))))))))"

subsection \<open>The registry\<close>

text \<open>The functions \<open>modif_funcs\<close> hands out, as values that can be compared and called.\<close>

datatype callback =
  Static_ghosts | Number_power_pills | Edible_ghosts | Inverted_ms_pacman
  | Inverted_ms_pacman_reset

fun call :: "callback \<Rightarrow> globals \<Rightarrow> ram \<Rightarrow> error + globals \<times> ram" where
  "call Static_ghosts g ram = ebind (static_ghosts g ram) (\<lambda>ram. Inr (g, ram))"
| "call Number_power_pills g ram = ebind (number_power_pills g ram) (\<lambda>ram. Inr (g, ram))"
| "call Edible_ghosts g ram = ebind (edible_ghosts ram) (\<lambda>ram. Inr (g, ram))"
| "call Inverted_ms_pacman g ram = inverted_ms_pacman g ram"
| "call Inverted_ms_pacman_reset g ram = inverted_ms_pacman_reset g ram"

text \<open>
  An element of \<open>modifs\<close>: a string, or a function object (the only kind of value the
  comparison \<open>mod == edible_ghosts\<close> could hold for).
\<close>

datatype pyobj = Str string | Func callback

text \<open>\<open>mod.startswith(p)\<close>: a function object has no such attribute.\<close>

definition startswith :: "pyobj \<Rightarrow> string \<Rightarrow> error + bool" where
  "startswith modif p =
     (case modif of Str s \<Rightarrow> Inr (take (length p) s = p) | Func f \<Rightarrow> Inl AttributeError)"

text \<open>
  A name is a string of code points below 256.  \<open>repr_char c\<close> is Python's \<open>repr\<close> of
  the one-character string \<open>c\<close>, as the message of \<open>int()\<close> shows it: in single quotes
  (double quotes around a single quote), a backslash doubled, tab, newline and
  carriage return as a backslash and \<open>t\<close>, \<open>n\<close>, \<open>r\<close>, and every other code point that
  is not printable (below 32, 127 to 160, 173) as a backslash, \<open>x\<close> and two
  hexadecimal digits.
\<close>

definition hexdigit :: "nat \<Rightarrow> char" where
  "hexdigit n = ''0123456789abcdef'' ! n"

definition repr_char :: "char \<Rightarrow> string" where
  "repr_char c =
     (let n = (of_char c :: nat) in
      if c = CHR 0x27 then [CHR 0x22, c, CHR 0x22]
      else [CHR 0x27]
           @ (if c = CHR 0x5C then [CHR 0x5C, CHR 0x5C]
              else if n = 9 then [CHR 0x5C, CHR ''t'']
              else if n = 10 then [CHR 0x5C, CHR ''n'']
              else if n = 13 then [CHR 0x5C, CHR ''r'']
              else if n < 32 \<or> (127 \<le> n \<and> n \<le> 160) \<or> n = 173
                then [CHR 0x5C, CHR ''x'', hexdigit (n div 16), hexdigit (n mod 16)]
              else [c])
           @ [CHR 0x27])"

text \<open>
  \<open>int(mod[-1])\<close> for a string that starts with \<open>power\<close>, hence is not empty: the last
  character, read as a decimal digit.  Any other character is not a number (below 256
  the decimal digits are \<open>0\<close> to \<open>9\<close>), and \<open>int()\<close> raises \<open>ValueError\<close> with the
  character in its message.
\<close>

definition int_last :: "pyobj \<Rightarrow> error + int" where
  "int_last modif =
     (case modif of
        Str s \<Rightarrow>
          (if s = [] then Inl IndexError
           else let c = (of_char (last s) :: nat)
                in if 48 \<le> c \<and> c \<le> 57 then Inr (int c - 48)
                   else Inl (ValueError (''invalid literal for int() with base 10: ''
                                         @ repr_char (last s))))
      | Func f \<Rightarrow> Inl AttributeError)"

text \<open>
  The body of \<open>for mod in modifs\<close>, with the globals and the two lists it has built so
  far.  The globals are returned on the error path too: an assignment made before the
  \<open>raise\<close> stays.
\<close>

fun modif_funcs_for ::
  "pyobj list \<Rightarrow> globals \<Rightarrow> callback list \<Rightarrow> callback list
     \<Rightarrow> globals \<times> (error + callback list \<times> callback list)" where
  "modif_funcs_for [] g step_modifs reset_modifs = (g, Inr (step_modifs, reset_modifs))"
| "modif_funcs_for (modif # modifs) g step_modifs reset_modifs =
     (if modif = Str ''caged_ghosts'' then
        modif_funcs_for modifs
          (g\<lparr>TOGGLE_CYAN := True, TOGGLE_ORANGE := True, TOGGLE_RED := True,
             TOGGLE_PINK := True\<rparr>)
          (step_modifs @ [Static_ghosts]) reset_modifs
      else if modif = Str ''disable_orange'' then
        modif_funcs_for modifs (g\<lparr>TOGGLE_ORANGE := True\<rparr>)
          (step_modifs @ [Static_ghosts]) reset_modifs
      else if modif = Str ''disable_red'' then
        modif_funcs_for modifs (g\<lparr>TOGGLE_RED := True\<rparr>)
          (step_modifs @ [Static_ghosts]) reset_modifs
      else if modif = Str ''disable_cyan'' then
        modif_funcs_for modifs (g\<lparr>TOGGLE_CYAN := True\<rparr>)
          (step_modifs @ [Static_ghosts]) reset_modifs
      else if modif = Str ''disable_pink'' then
        modif_funcs_for modifs (g\<lparr>TOGGLE_PINK := True\<rparr>)
          (step_modifs @ [Static_ghosts]) reset_modifs
      else
        (case startswith modif ''power'' of
           Inl e \<Rightarrow> (g, Inl e)
         | Inr True \<Rightarrow>
             (case int_last modif of
                Inl e \<Rightarrow> (g, Inl e)
              | Inr mod_n \<Rightarrow>
                  if mod_n < 0 \<or> mod_n > 4
                  then (g, Inl (ValueError ''Invalid Number of Power Pills''))
                  else modif_funcs_for modifs (g\<lparr>NUMBER_POWER_PILLS := mod_n\<rparr>)
                         step_modifs (reset_modifs @ [Number_power_pills]))
         | Inr False \<Rightarrow>
             if modif = Func Edible_ghosts then
               modif_funcs_for modifs g (step_modifs @ [Edible_ghosts]) reset_modifs
             else if modif = Str ''inverted'' then
               modif_funcs_for modifs g (step_modifs @ [Inverted_ms_pacman])
                 (reset_modifs @ [Inverted_ms_pacman_reset])
             else modif_funcs_for modifs g step_modifs reset_modifs))"

definition modif_funcs ::
  "globals \<Rightarrow> pyobj list \<Rightarrow> globals \<times> (error + callback list \<times> callback list)" where
  "modif_funcs g modifs = modif_funcs_for modifs g [] []"

section \<open>Evaluation on a memory that is large enough\<close>

lemma ebind_simps [simp]: "ebind (Inr x) f = f x" "ebind (Inl e) f = Inl e"
  by (simp_all add: ebind_def)

lemma set_ram_ok [simp]: "i < length ram \<Longrightarrow> set_ram i v ram = Inr (ram[i := v])"
  by (simp add: set_ram_def)

lemma ram_at_ok [simp]: "i < length ram \<Longrightarrow> ram_at ram i = Inr (ram ! i)"
  by (simp add: ram_at_def)

lemma make_edible_ok:
  "k < length ram \<Longrightarrow> rx < length ram \<Longrightarrow> ry < length ram \<Longrightarrow>
   make_edible k x rx y ry ram = Inr (ram[k := 130, rx := x, ry := y])"
  by (simp add: make_edible_def)

lemma if_make_edible_ok:
  "k < length ram \<Longrightarrow> rx < length ram \<Longrightarrow> ry < length ram \<Longrightarrow>
   (if c then make_edible k x rx y ry ram else Inr ram)
     = Inr (if c then ram[k := 130, rx := x, ry := y] else ram)"
  by (simp add: make_edible_ok)

lemma if_set_ram_ok:
  "i < length ram \<Longrightarrow>
   (if c then set_ram i v ram else Inr ram) = Inr (if c then ram[i := v] else ram)"
  by simp

lemma length_if_update [simp]:
  "length (if c then ram[i := v] else ram) = length ram"
  "length (if c then ram[i := v, j := w, k := x] else ram) = length ram"
  by simp_all

text \<open>Both loops run their body for \<open>i = 1, 2, 3, 4\<close> and stop.\<close>

lemma inverted_power_pill_while_ok:
  "4 < length ram \<Longrightarrow>
   inverted_power_pill_while 1 ram = Inr (ram[1 := 0, 2 := 0, 3 := 0, 4 := 0])"
  by (simp add: inverted_power_pill_while.simps eval_nat_numeral)

lemma power_pill_is_done_while_ok:
  "4 < length ram \<Longrightarrow>
   power_pill_is_done_while 1 ram = Inr (ram[1 := 130, 2 := 130, 3 := 130, 4 := 130])"
  by (simp add: power_pill_is_done_while.simps eval_nat_numeral)

lemma inverted_power_pill_ok:
  "116 < length ram \<Longrightarrow>
   inverted_power_pill ram = Inr (ram[1 := 0, 2 := 0, 3 := 0, 4 := 0, 116 := 62])"
  by (simp add: inverted_power_pill_def inverted_power_pill_while_ok del: One_nat_def)

lemma power_pill_is_done_ok:
  "116 < length ram \<Longrightarrow>
   power_pill_is_done ram = Inr (ram[1 := 130, 2 := 130, 3 := 130, 4 := 130, 116 := 190])"
  by (simp add: power_pill_is_done_def power_pill_is_done_while_ok del: One_nat_def)

lemma static_ghosts_ok:
  assumes "15 < length ram"
  shows "static_ghosts g ram = Inr
     (let r1 = (if TOGGLE_ORANGE g then ram[6 := 93, 12 := 80] else ram);
          r2 = (if TOGGLE_CYAN g then r1[7 := 83, 13 := 80] else r1);
          r3 = (if TOGGLE_PINK g then r2[8 := 93, 14 := 67] else r2)
      in (if TOGGLE_RED g then r3[9 := 83, 15 := 67] else r3))"
  using assms by (simp add: static_ghosts_def Let_def)

lemma edible_ghosts_ok:
  assumes "116 < length ram"
  shows "edible_ghosts ram = Inr
     (let r0 = (if ram ! 116 < 250 then ram[116 := 255] else ram);
          r1 = (if ram ! 1 = 112 then r0[1 := 130, 6 := 120, 12 := 50] else r0);
          r2 = (if ram ! 2 = 112 then r1[2 := 130, 7 := 100, 13 := 50] else r1);
          r3 = (if ram ! 3 = 112 then r2[3 := 130, 8 := 80, 14 := 50] else r2)
      in (if ram ! 4 = 112 then r3[4 := 130, 9 := 60, 15 := 50] else r3))"
  using assms
  by (simp add: edible_ghosts_def if_make_edible_ok if_set_ram_ok Let_def del: One_nat_def)

lemmas inverted_unfold =
  inverted_ms_pacman_def inverted_power_pill_ok power_pill_is_done_ok make_edible_ok

lemma inverted_ms_pacman_total:
  assumes "117 < length ram"
  shows "\<exists>g' ram'. inverted_ms_pacman g ram = Inr (g', ram') \<and> length ram' = length ram"
  using assms by (simp add: inverted_unfold del: One_nat_def)

section \<open>The static-ghost rule\<close>

lemma static_ghosts_twice:
  "ebind (static_ghosts g ram) (static_ghosts g) = static_ghosts g ram"
  by (auto simp: static_ghosts_def set_ram_def ebind_def list_eq_iff_nth_eq nth_list_update)

text \<open>
  Claim C8 (idempotence of the static-entity suppression rule): for every memory and
  every setting of the four toggles, running \<open>static_ghosts\<close> on the memory it has
  just produced returns that memory unchanged, so two invocations in a row leave the
  same memory as one.  The memory has to hold the cells the rule writes (6-9, 12-15).
\<close>

theorem static_ghosts_idempotent:
  assumes "15 < length ram"
  shows "\<exists>ram'. static_ghosts g ram = Inr ram' \<and> static_ghosts g ram' = Inr ram'"
proof -
  from assms obtain ram' where once: "static_ghosts g ram = Inr ram'"
    by (simp add: static_ghosts_ok)
  have "ebind (static_ghosts g ram) (static_ghosts g) = static_ghosts g ram"
    by (rule static_ghosts_twice)
  with once have "static_ghosts g ram' = Inr ram'" by simp
  with once show ?thesis by simp
qed

theorem static_ghosts_idempotent_witness:
  "15 < length (replicate 128 (7 :: u8))
   \<and> static_ghosts (initial_globals\<lparr>TOGGLE_ORANGE := True, TOGGLE_RED := True\<rparr>)
         (replicate 128 7)
       = Inr ((replicate 128 7)[6 := 93, 12 := 80, 9 := 83, 15 := 67])
   \<and> static_ghosts (initial_globals\<lparr>TOGGLE_ORANGE := True, TOGGLE_RED := True\<rparr>)
         ((replicate 128 7)[6 := 93, 12 := 80, 9 := 83, 15 := 67])
       = Inr ((replicate 128 7)[6 := 93, 12 := 80, 9 := 83, 15 := 67])"
  using static_ghosts_idempotent
    [of "replicate 128 7" "initial_globals\<lparr>TOGGLE_ORANGE := True, TOGGLE_RED := True\<rparr>"]
  by (simp add: static_ghosts_ok initial_globals_def)

section \<open>The power-pill count rule\<close>

text \<open>
  Claim C7 (token-count lookup): with the configured count \<open>N\<close> in \<open>{0, 1, 2, 3}\<close>, one
  invocation of \<open>number_power_pills\<close> writes exactly the triple of \<open>N\<close> to the cells
  62, 95 and 117: (80, 80, 0) for 0, (64, 80, 8) for 1, (0, 80, 40) for 2 and
  (0, 64, 46) for 3, and no other cell.  With \<open>N = 4\<close> it writes nothing: any memory
  comes back as it was.
\<close>

theorem number_power_pills_table:
  assumes "117 < length ram"
  shows "number_power_pills (g\<lparr>NUMBER_POWER_PILLS := 0\<rparr>) ram
           = Inr (ram[62 := 80, 95 := 80, 117 := 0])
       \<and> number_power_pills (g\<lparr>NUMBER_POWER_PILLS := 1\<rparr>) ram
           = Inr (ram[62 := 64, 95 := 80, 117 := 8])
       \<and> number_power_pills (g\<lparr>NUMBER_POWER_PILLS := 2\<rparr>) ram
           = Inr (ram[62 := 0, 95 := 80, 117 := 40])
       \<and> number_power_pills (g\<lparr>NUMBER_POWER_PILLS := 3\<rparr>) ram
           = Inr (ram[62 := 0, 95 := 64, 117 := 46])
       \<and> number_power_pills (g\<lparr>NUMBER_POWER_PILLS := 4\<rparr>) mem = Inr mem"
  using assms by (simp add: number_power_pills_def)

theorem number_power_pills_table_witness:
  "117 < length (replicate 128 (9 :: u8))
   \<and> number_power_pills (initial_globals\<lparr>NUMBER_POWER_PILLS := 3\<rparr>) (replicate 128 9)
     = Inr ((replicate 128 9)[62 := 0, 95 := 64, 117 := 46])
   \<and> number_power_pills (initial_globals\<lparr>NUMBER_POWER_PILLS := 4\<rparr>) (replicate 128 9)
     = Inr (replicate 128 9)"
  using number_power_pills_table [of "replicate 128 9" initial_globals "replicate 128 9"]
  by simp

section \<open>The always-edible rule\<close>

text \<open>
  Claim C5 (timer floor): one step of \<open>edible_ghosts\<close> succeeds on every memory that
  holds the timer cell 116, and afterwards the timer cell is 255 if it was below 250
  before the step and is unchanged if it was 250 or more.
\<close>

theorem edible_ghosts_timer_floor:
  assumes "116 < length ram"
  shows "\<exists>ram'. edible_ghosts ram = Inr ram' \<and> length ram' = length ram
           \<and> ram' ! 116 = (if ram ! 116 < 250 then 255 else ram ! 116)"
  using assms by (simp add: edible_ghosts_ok Let_def)

theorem edible_ghosts_timer_floor_witness:
  "116 < length ((replicate 128 0)[116 := 249 :: u8])
   \<and> edible_ghosts ((replicate 128 0)[116 := 249]) = Inr ((replicate 128 0)[116 := 255])
   \<and> edible_ghosts ((replicate 128 0)[116 := 250]) = Inr ((replicate 128 0)[116 := 250])"
  using edible_ghosts_timer_floor [of "(replicate 128 0)[116 := 249]"]
    edible_ghosts_timer_floor [of "(replicate 128 0)[116 := 250]"]
  by (simp add: edible_ghosts_ok)

text \<open>
  Claim C6 (respawn of an eaten ghost): for each of the four ghosts, if its state cell
  (1, 2, 3, 4) holds 112 before one step of \<open>edible_ghosts\<close>, then after the step the
  state cell holds 130 and its position cells hold its spawn coordinates: (120, 50) in
  cells 6 and 12 for the orange ghost, (100, 50) in 7 and 13 for the cyan one, (80, 50)
  in 8 and 14 for the pink one and (60, 50) in 9 and 15 for the red one.
\<close>

theorem edible_ghosts_respawn:
  assumes "116 < length ram"
  shows "\<exists>ram'. edible_ghosts ram = Inr ram'
           \<and> (ram ! 1 = 112 \<longrightarrow> ram' ! 1 = 130 \<and> ram' ! 6 = 120 \<and> ram' ! 12 = 50)
           \<and> (ram ! 2 = 112 \<longrightarrow> ram' ! 2 = 130 \<and> ram' ! 7 = 100 \<and> ram' ! 13 = 50)
           \<and> (ram ! 3 = 112 \<longrightarrow> ram' ! 3 = 130 \<and> ram' ! 8 = 80 \<and> ram' ! 14 = 50)
           \<and> (ram ! 4 = 112 \<longrightarrow> ram' ! 4 = 130 \<and> ram' ! 9 = 60 \<and> ram' ! 15 = 50)"
  using assms by (simp add: edible_ghosts_ok Let_def)

theorem edible_ghosts_respawn_witness:
  "116 < length ((replicate 128 0)[2 := 112, 4 := 112, 116 := 255 :: u8])
   \<and> edible_ghosts ((replicate 128 0)[2 := 112, 4 := 112, 116 := 255])
     = Inr ((replicate 128 0)[2 := 130, 7 := 100, 13 := 50, 4 := 130, 9 := 60, 15 := 50,
                              116 := 255])"
  using edible_ghosts_respawn [of "(replicate 128 0)[2 := 112, 4 := 112, 116 := 255]"]
  by (simp add: edible_ghosts_ok list_eq_iff_nth_eq nth_list_update)

section \<open>The inverted mode\<close>

text \<open>Where the bounds do not wrap, the window test is the one on the values.\<close>

lemma window_no_wrap:
  assumes "3 \<le> pyint_val b" and "pyint_val b \<le> 252"
  shows "(py_less_byte (py_sub b 3) c \<and> byte_less_py c (py_add b 3))
           = (\<bar>uint c - pyint_val b\<bar> < 3)"
proof (cases b)
  case (PyInt n)
  then show ?thesis by auto
next
  case (UInt8 w)
  with assms have "uint (w - 3) = uint w - 3" "uint (w + 3) = uint w + 3"
    by (simp_all add: uint_sub_if' uint_plus_if')
  with UInt8 show ?thesis
    by (auto simp: word_less_def)
qed

text \<open>
  Claim C1 (marker tolerance), as the code has it.  The window test is
  \<open>LAST_PP_STATUS - 3 < m < LAST_PP_STATUS + 3\<close> with strict comparisons, so the
  tolerance is a distance of at most 2; and the two bounds are the baseline minus and
  plus 3 only for a baseline from 3 to 252, where a stored byte does not wrap.  For
  every marker reading \<open>m\<close> in cell 117 and every baseline from 3 to 252 (a Python
  integer or a stored byte) with \<open>|m - baseline| < 3\<close>, one step of
  \<open>inverted_ms_pacman\<close> succeeds, makes no transition from normal to inverted (the mode
  stays as it was, or returns to normal when the timer read 0), leaves the baseline
  unchanged, and writes neither 0 to a ghost state cell nor 62 to the timer: the timer
  ends as 190 (it read 0), as 255 (it read less than 250 in normal mode) or as it was,
  and each ghost state cell ends as 130 or as it was.
\<close>

theorem marker_within_window:
  assumes "117 < length ram"
    and "3 \<le> pyint_val (LAST_PP_STATUS g)" and "pyint_val (LAST_PP_STATUS g) \<le> 252"
    and "\<bar>uint (ram ! 117) - pyint_val (LAST_PP_STATUS g)\<bar> < 3"
  shows "\<exists>g' ram'. inverted_ms_pacman g ram = Inr (g', ram')
           \<and> (IS_INVERTED g' \<longrightarrow> IS_INVERTED g)
           \<and> IS_INVERTED g' = (IS_INVERTED g \<and> ram ! 116 \<noteq> 0)
           \<and> LAST_PP_STATUS g' = LAST_PP_STATUS g
           \<and> ram' ! 116 = (if ram ! 116 = 0 then 190
                            else if ram ! 116 < 250 \<and> \<not> IS_INVERTED g then 255
                            else ram ! 116)
           \<and> (\<forall>i \<in> {1, 2, 3, 4}.
                 ram' ! i = (if ram ! 116 = 0 \<or> (ram ! i = 112 \<and> \<not> IS_INVERTED g) then 130
                             else ram ! i))"
proof -
  from assms(2-4)
  have w: "py_less_byte (py_sub (LAST_PP_STATUS g) 3) (ram ! 117)
           \<and> byte_less_py (ram ! 117) (py_add (LAST_PP_STATUS g) 3)"
    by (simp add: window_no_wrap)
  show ?thesis
    using assms(1) w by (simp add: inverted_unfold del: One_nat_def)
qed

theorem marker_within_window_witness:
  "117 < length ((replicate 128 130)[1 := 112, 116 := 100, 117 := 61 :: u8])
   \<and> 3 \<le> pyint_val (PyInt 63) \<and> pyint_val (PyInt 63) \<le> 252
   \<and> 3 \<le> pyint_val (UInt8 3) \<and> pyint_val (UInt8 3) \<le> 252
   \<and> \<bar>uint ((replicate 128 130)[1 := 112, 116 := 100, 117 := 61 :: u8] ! 117)
        - pyint_val (LAST_PP_STATUS (initial_globals\<lparr>LAST_PP_STATUS := PyInt 63\<rparr>))\<bar> < 3
   \<and> inverted_ms_pacman (initial_globals\<lparr>LAST_PP_STATUS := PyInt 63\<rparr>)
       ((replicate 128 130)[1 := 112, 116 := 100, 117 := 61])
     = Inr (initial_globals\<lparr>LAST_PP_STATUS := PyInt 63\<rparr>,
          (replicate 128 130)[1 := 130, 6 := 120, 12 := 50, 116 := 255, 117 := 61])
   \<and> \<bar>uint ((replicate 128 130)[116 := 100, 117 := 5 :: u8] ! 117)
        - pyint_val (LAST_PP_STATUS
            (initial_globals\<lparr>LAST_PP_STATUS := UInt8 3, IS_INVERTED := True\<rparr>))\<bar> < 3
   \<and> inverted_ms_pacman (initial_globals\<lparr>LAST_PP_STATUS := UInt8 3, IS_INVERTED := True\<rparr>)
       ((replicate 128 130)[116 := 100, 117 := 5])
     = Inr (initial_globals\<lparr>LAST_PP_STATUS := UInt8 3, IS_INVERTED := True\<rparr>,
          (replicate 128 130)[116 := 100, 117 := 5])"
  using marker_within_window
    [of "(replicate 128 130)[1 := 112, 116 := 100, 117 := 61]"
        "initial_globals\<lparr>LAST_PP_STATUS := PyInt 63\<rparr>"]
    marker_within_window
    [of "(replicate 128 130)[116 := 100, 117 := 5]"
        "initial_globals\<lparr>LAST_PP_STATUS := UInt8 3, IS_INVERTED := True\<rparr>"]
  by (simp add: inverted_unfold initial_globals_def list_eq_iff_nth_eq nth_list_update
        del: One_nat_def)

text \<open>
  At a distance of exactly 3 the step does switch.  In normal mode with baseline 63,
  timer 255 and all four ghosts edible (130), the marker reading 60 satisfies
  \<open>|60 - 63| \<le> 3\<close>, and the step moves to inverted mode, records 60 as the baseline,
  writes 0 to the cells 1-4 and 62 to the timer.
\<close>

theorem marker_at_distance_3:
  "\<bar>uint (60 :: u8) - 63\<bar> \<le> 3 \<and>
   inverted_ms_pacman
     \<lparr>TOGGLE_ORANGE = False, TOGGLE_CYAN = False, TOGGLE_PINK = False, TOGGLE_RED = False,
      NUMBER_POWER_PILLS = 4, LAST_PP_STATUS = PyInt 63, IS_INVERTED = False\<rparr>
     ((replicate 128 0)[1 := 130, 2 := 130, 3 := 130, 4 := 130, 116 := 255, 117 := 60])
   = Inr (\<lparr>TOGGLE_ORANGE = False, TOGGLE_CYAN = False, TOGGLE_PINK = False,
           TOGGLE_RED = False, NUMBER_POWER_PILLS = 4, LAST_PP_STATUS = UInt8 60,
           IS_INVERTED = True\<rparr>,
          (replicate 128 0)[116 := 62, 117 := 60])"
  by (simp add: inverted_unfold list_eq_iff_nth_eq nth_list_update del: One_nat_def)

text \<open>The same at the upper end: the reading 66 against the baseline 63 switches.\<close>

lemma marker_at_distance_3_above:
  "inverted_ms_pacman (initial_globals\<lparr>LAST_PP_STATUS := PyInt 63\<rparr>)
     ((replicate 128 130)[116 := 255, 117 := 66])
   = Inr (initial_globals\<lparr>LAST_PP_STATUS := UInt8 66, IS_INVERTED := True\<rparr>,
          (replicate 128 130)[1 := 0, 2 := 0, 3 := 0, 4 := 0, 116 := 62, 117 := 66])"
  by (simp add: inverted_unfold initial_globals_def list_eq_iff_nth_eq nth_list_update)

text \<open>
  A stored baseline below 3 or above 252 makes one bound wrap, the window is then
  empty and every reading switches.  With the stored byte 1 as baseline the lower
  bound is 254: the reading 1, at distance 0, moves a normal-mode step to inverted
  mode.  With the stored byte 254 the upper bound is 1, and the reading 254 switches.
\<close>

lemma marker_window_wraps:
  "inverted_ms_pacman (initial_globals\<lparr>LAST_PP_STATUS := UInt8 1\<rparr>)
     ((replicate 128 130)[116 := 255, 117 := 1])
   = Inr (initial_globals\<lparr>LAST_PP_STATUS := UInt8 1, IS_INVERTED := True\<rparr>,
          (replicate 128 130)[1 := 0, 2 := 0, 3 := 0, 4 := 0, 116 := 62, 117 := 1])"
  "inverted_ms_pacman (initial_globals\<lparr>LAST_PP_STATUS := UInt8 254\<rparr>)
     ((replicate 128 130)[116 := 255, 117 := 254])
   = Inr (initial_globals\<lparr>LAST_PP_STATUS := UInt8 254, IS_INVERTED := True\<rparr>,
          (replicate 128 130)[1 := 0, 2 := 0, 3 := 0, 4 := 0, 116 := 62, 117 := 254])"
proof -
  have bounds: "(1 :: u8) - 3 = 254" "(254 :: u8) + 3 = 1"
    by simp_all
  show "inverted_ms_pacman (initial_globals\<lparr>LAST_PP_STATUS := UInt8 1\<rparr>)
     ((replicate 128 130)[116 := 255, 117 := 1])
   = Inr (initial_globals\<lparr>LAST_PP_STATUS := UInt8 1, IS_INVERTED := True\<rparr>,
          (replicate 128 130)[1 := 0, 2 := 0, 3 := 0, 4 := 0, 116 := 62, 117 := 1])"
    by (simp add: inverted_unfold initial_globals_def list_eq_iff_nth_eq nth_list_update
          bounds)
  show "inverted_ms_pacman (initial_globals\<lparr>LAST_PP_STATUS := UInt8 254\<rparr>)
     ((replicate 128 130)[116 := 255, 117 := 254])
   = Inr (initial_globals\<lparr>LAST_PP_STATUS := UInt8 254, IS_INVERTED := True\<rparr>,
          (replicate 128 130)[1 := 0, 2 := 0, 3 := 0, 4 := 0, 116 := 62, 117 := 254])"
    by (simp add: inverted_unfold initial_globals_def list_eq_iff_nth_eq nth_list_update
          bounds)
qed

lemma marker_window_empty:
  assumes "w < 3 \<or> 252 < w"
  shows "\<not> (py_less_byte (py_sub (UInt8 w) 3) c \<and> byte_less_py c (py_add (UInt8 w) 3))"
proof -
  from assms have "uint w < 3 \<or> 252 < uint w"
    by (auto simp: word_less_def)
  then have "uint c \<le> uint (w - 3) \<or> uint (w + 3) \<le> uint c"
    using uint_lt2p [of w] uint_lt2p [of c] uint_ge_0 [of c] uint_ge_0 [of w]
    by (auto simp: uint_sub_if' uint_plus_if' split: if_splits)
  then show ?thesis
    by (auto simp: word_less_def)
qed

text \<open>
  Claim C4 (transition scenario): in normal mode with baseline 63 (the Python integer
  a reset leaves, or a stored byte 63), a step on a memory
  whose timer cell 116 holds 255 and whose marker cell 117 holds 10 moves to inverted
  mode, sets the cells 1-4 to 0, the timer to 62 and the baseline to 10.  From the
  state so reached, a step on any memory whose timer cell holds 0 (whatever its marker
  cell holds, so also a marker within the window of 10) moves back to normal mode,
  sets the cells 1-4 to 130 and the timer to 190.
\<close>

theorem inverted_scenario:
  assumes "length ram = 128" and "ram ! 117 = 10" and "ram ! 116 = 255"
    and "IS_INVERTED g = False" and "pyint_val (LAST_PP_STATUS g) = 63"
    and "length mem = 128" and "mem ! 116 = 0"
  shows "\<exists>g1 ram1. inverted_ms_pacman g ram = Inr (g1, ram1)
           \<and> IS_INVERTED g1 \<and> LAST_PP_STATUS g1 = UInt8 10
           \<and> pyint_val (LAST_PP_STATUS g1) = 10
           \<and> ram1 ! 1 = 0 \<and> ram1 ! 2 = 0 \<and> ram1 ! 3 = 0 \<and> ram1 ! 4 = 0 \<and> ram1 ! 116 = 62
           \<and> (\<exists>g2 ram2. inverted_ms_pacman g1 mem = Inr (g2, ram2)
                 \<and> \<not> IS_INVERTED g2
                 \<and> ram2 ! 1 = 130 \<and> ram2 ! 2 = 130 \<and> ram2 ! 3 = 130 \<and> ram2 ! 4 = 130
                 \<and> ram2 ! 116 = 190)"
proof -
  have second: "\<exists>g2 ram2. inverted_ms_pacman g1 mem = Inr (g2, ram2)
                   \<and> \<not> IS_INVERTED g2
                   \<and> ram2 ! 1 = 130 \<and> ram2 ! 2 = 130 \<and> ram2 ! 3 = 130 \<and> ram2 ! 4 = 130
                   \<and> ram2 ! 116 = 190" for g1
    using assms(6,7) by (simp add: inverted_unfold del: One_nat_def)
  from assms(5)
  have "(py_less_byte (py_sub (LAST_PP_STATUS g) 3) 10
           \<and> byte_less_py 10 (py_add (LAST_PP_STATUS g) 3))
         = (\<bar>uint (10 :: u8) - pyint_val (LAST_PP_STATUS g)\<bar> < 3)"
    by (intro window_no_wrap) simp_all
  with assms(5)
  have outside: "\<not> (py_less_byte (py_sub (LAST_PP_STATUS g) 3) 10
           \<and> byte_less_py 10 (py_add (LAST_PP_STATUS g) 3))"
    by simp
  have first: "inverted_ms_pacman g ram =
      Inr (g\<lparr>IS_INVERTED := True, LAST_PP_STATUS := UInt8 10\<rparr>,
           ram[1 := 0, 2 := 0, 3 := 0, 4 := 0, 116 := 62])"
    using assms(1-4) outside by (simp add: inverted_unfold del: One_nat_def)
  show ?thesis
    using assms(1) second by (simp add: first del: One_nat_def)
qed

theorem inverted_scenario_witness:
  "inverted_ms_pacman (initial_globals\<lparr>LAST_PP_STATUS := PyInt 63\<rparr>)
     ((replicate 128 130)[116 := 255, 117 := 10])
   = Inr (initial_globals\<lparr>LAST_PP_STATUS := UInt8 10, IS_INVERTED := True\<rparr>,
          (replicate 128 130)[1 := 0, 2 := 0, 3 := 0, 4 := 0, 116 := 62, 117 := 10])
   \<and> inverted_ms_pacman (initial_globals\<lparr>LAST_PP_STATUS := UInt8 10, IS_INVERTED := True\<rparr>)
       ((replicate 128 0)[116 := 0, 117 := 10])
     = Inr (initial_globals\<lparr>LAST_PP_STATUS := UInt8 10, IS_INVERTED := False\<rparr>,
          (replicate 128 0)[1 := 130, 2 := 130, 3 := 130, 4 := 130, 116 := 190, 117 := 10])"
  using inverted_scenario
    [of "(replicate 128 130)[116 := 255, 117 := 10]"
        "initial_globals\<lparr>LAST_PP_STATUS := PyInt 63\<rparr>"
        "(replicate 128 0)[116 := 0, 117 := 10]"]
  by (simp add: inverted_unfold initial_globals_def list_eq_iff_nth_eq nth_list_update
        del: One_nat_def)

section \<open>Totality of the per-frame rules\<close>

text \<open>
  Claim C10 (per-frame rule totality): on every memory of 128 byte cells and for every
  value of the module globals, one invocation of each per-frame rule (\<open>static_ghosts\<close>,
  \<open>edible_ghosts\<close>, \<open>inverted_ms_pacman\<close>) returns a memory of 128 cells and takes no
  error path; so do the two helpers with the loop over the four ghosts.  The loops
  themselves terminate: their definitions above carry the termination proofs.
\<close>

theorem step_rules_total:
  assumes "length ram = 128"
  shows "(\<exists>ram'. static_ghosts g ram = Inr ram' \<and> length ram' = 128)
       \<and> (\<exists>ram'. edible_ghosts ram = Inr ram' \<and> length ram' = 128)
       \<and> (\<exists>g' ram'. inverted_ms_pacman g ram = Inr (g', ram') \<and> length ram' = 128)
       \<and> (\<exists>ram'. inverted_power_pill ram = Inr ram' \<and> length ram' = 128)
       \<and> (\<exists>ram'. power_pill_is_done ram = Inr ram' \<and> length ram' = 128)"
proof (intro conjI)
  show "\<exists>ram'. static_ghosts g ram = Inr ram' \<and> length ram' = 128"
    using assms by (simp add: static_ghosts_ok Let_def)
  show "\<exists>ram'. edible_ghosts ram = Inr ram' \<and> length ram' = 128"
    using assms by (simp add: edible_ghosts_ok Let_def)
  show "\<exists>g' ram'. inverted_ms_pacman g ram = Inr (g', ram') \<and> length ram' = 128"
    using assms inverted_ms_pacman_total [of ram g] by simp
  show "\<exists>ram'. inverted_power_pill ram = Inr ram' \<and> length ram' = 128"
    using assms by (simp add: inverted_power_pill_ok)
  show "\<exists>ram'. power_pill_is_done ram = Inr ram' \<and> length ram' = 128"
    using assms by (simp add: power_pill_is_done_ok)
qed

theorem step_rules_total_witness:
  "length (replicate 128 (112 :: u8)) = 128
   \<and> static_ghosts (initial_globals\<lparr>TOGGLE_PINK := True\<rparr>) (replicate 128 112)
       = Inr ((replicate 128 112)[8 := 93, 14 := 67])
   \<and> (\<exists>ram'. edible_ghosts (replicate 128 112) = Inr ram' \<and> length ram' = 128)
   \<and> (\<exists>g' ram'. inverted_ms_pacman initial_globals (replicate 128 112) = Inr (g', ram')
                  \<and> length ram' = 128)"
  using step_rules_total [of "replicate 128 112" initial_globals]
  by (simp add: static_ghosts_ok initial_globals_def)

section \<open>The registry\<close>

lemma modif_funcs_for_skip:
  assumes "name \<notin> {''caged_ghosts'', ''disable_orange'', ''disable_red'', ''disable_cyan'',
                      ''disable_pink'', ''inverted''}"
    and "startswith (Str name) ''power'' = Inr False"
  shows "modif_funcs_for (Str name # modifs) g step_modifs reset_modifs
           = modif_funcs_for modifs g step_modifs reset_modifs"
  using assms by simp

lemma modif_funcs_for_append_skip:
  assumes "name \<notin> {''caged_ghosts'', ''disable_orange'', ''disable_red'', ''disable_cyan'',
                      ''disable_pink'', ''inverted''}"
    and "startswith (Str name) ''power'' = Inr False"
  shows "modif_funcs_for (before @ Str name # after) g step_modifs reset_modifs
           = modif_funcs_for (before @ after) g step_modifs reset_modifs"
proof (induction before arbitrary: g step_modifs reset_modifs)
  case Nil
  show ?case using modif_funcs_for_skip [OF assms] by simp
next
  case (Cons m before)
  show ?case
    by (simp add: Cons.IH split: sum.splits bool.splits)
qed

text \<open>
  Claim C2 (unknown names are tolerated), as the code has it.  The registry sends
  every name that starts with \<open>power\<close> to the power-pill branch, whether or not a digit
  follows.  A name that is none of the six names the registry compares with and does
  not start with \<open>power\<close> is skipped: configured alone it gives the globals unchanged
  and two empty callback lists, and anywhere in a list of names the outcome is that of
  the list without it.  In particular \<open>nonexistent_mod\<close> alone gives two empty lists.
\<close>

theorem unknown_name_ignored:
  assumes "name \<notin> {''caged_ghosts'', ''disable_orange'', ''disable_red'', ''disable_cyan'',
                      ''disable_pink'', ''inverted''}"
    and "startswith (Str name) ''power'' = Inr False"
  shows "modif_funcs g [Str name] = (g, Inr ([], []))
       \<and> modif_funcs g (before @ Str name # after) = modif_funcs g (before @ after)
       \<and> modif_funcs g [Str ''nonexistent_mod''] = (g, Inr ([], []))"
proof (intro conjI)
  show "modif_funcs g [Str name] = (g, Inr ([], []))"
    unfolding modif_funcs_def using modif_funcs_for_skip [OF assms] by simp
  show "modif_funcs g (before @ Str name # after) = modif_funcs g (before @ after)"
    unfolding modif_funcs_def by (rule modif_funcs_for_append_skip [OF assms])
  show "modif_funcs g [Str ''nonexistent_mod''] = (g, Inr ([], []))"
    by (simp add: modif_funcs_def startswith_def)
qed

theorem unknown_name_ignored_witness:
  "startswith (Str ''edible_ghosts'') ''power'' = Inr False
   \<and> modif_funcs initial_globals [Str ''edible_ghosts''] = (initial_globals, Inr ([], []))
   \<and> modif_funcs initial_globals [Str ''inverted'', Str ''edible_ghosts'', Str ''power1'']
     = modif_funcs initial_globals [Str ''inverted'', Str ''power1'']"
  using unknown_name_ignored
     [of "''edible_ghosts''" initial_globals "[Str ''inverted'']" "[Str ''power1'']"]
  by (simp add: startswith_def)

text \<open>
  A name that starts with \<open>power\<close> and is not \<open>power\<close> followed by a digit is not
  skipped.  \<open>powerful\<close> is none of the six names and does not end in a digit, and
  configuring it fails: \<open>int()\<close> rejects its last character.
\<close>

theorem powerful_not_ignored:
  "''powerful'' \<notin> {''caged_ghosts'', ''disable_orange'', ''disable_red'', ''disable_cyan'',
                    ''disable_pink'', ''inverted''}
   \<and> last ''powerful'' = CHR ''l''
   \<and> modif_funcs initial_globals [Str ''powerful'']
       = (initial_globals,
          Inl (ValueError (''invalid literal for int() with base 10: ''
                           @ [CHR 0x27, CHR ''l'', CHR 0x27])))"
  by (simp add: modif_funcs_def startswith_def int_last_def repr_char_def)

text \<open>
  So does \<open>power\<close> alone; \<open>powerup1\<close> is taken as the count 1 and \<open>power10\<close> as the
  count 0.  A function object in the list fails at \<open>startswith\<close>.
\<close>

lemma power_prefix_names:
  "modif_funcs g [Str ''power'']
     = (g, Inl (ValueError (''invalid literal for int() with base 10: ''
                            @ [CHR 0x27, CHR ''r'', CHR 0x27])))"
  "modif_funcs g [Str ''powerup1'']
     = (g\<lparr>NUMBER_POWER_PILLS := 1\<rparr>, Inr ([], [Number_power_pills]))"
  "modif_funcs g [Str ''power10'']
     = (g\<lparr>NUMBER_POWER_PILLS := 0\<rparr>, Inr ([], [Number_power_pills]))"
  "modif_funcs g [Func Edible_ghosts] = (g, Inl AttributeError)"
  by (simp_all add: modif_funcs_def startswith_def int_last_def repr_char_def)

lemma repr_char_examples:
  "repr_char (CHR ''l'') = [CHR 0x27, CHR ''l'', CHR 0x27]"
  "repr_char (CHR 0x27) = [CHR 0x22, CHR 0x27, CHR 0x22]"
  "repr_char (CHR 0x0A) = [CHR 0x27, CHR 0x5C, CHR ''n'', CHR 0x27]"
  "repr_char (CHR 0x1F) = [CHR 0x27, CHR 0x5C, CHR ''x'', CHR ''1'', CHR ''f'', CHR 0x27]"
  by (simp_all add: repr_char_def hexdigit_def)

text \<open>
  Claim C3 (validation of the power-pill count): configuring \<open>power5\<close> fails with the
  error \<open>ValueError: Invalid Number of Power Pills\<close>, whatever names follow it, with no
  callback list returned and the globals untouched.  Configuring \<open>power2\<close> succeeds, sets
  \<open>NUMBER_POWER_PILLS\<close> to 2 and registers one reset callback, \<open>number_power_pills\<close>,
  and no step callback; calling that callback writes 0 to cell 62, 80 to cell 95 and 40
  to cell 117.
\<close>

theorem power_pill_validation:
  assumes "117 < length ram"
  shows "modif_funcs g (Str ''power5'' # modifs)
           = (g, Inl (ValueError ''Invalid Number of Power Pills''))
       \<and> modif_funcs g [Str ''power2'']
           = (g\<lparr>NUMBER_POWER_PILLS := 2\<rparr>, Inr ([], [Number_power_pills]))
       \<and> call Number_power_pills (g\<lparr>NUMBER_POWER_PILLS := 2\<rparr>) ram
           = Inr (g\<lparr>NUMBER_POWER_PILLS := 2\<rparr>, ram[62 := 0, 95 := 80, 117 := 40])"
proof (intro conjI)
  show "modif_funcs g (Str ''power5'' # modifs)
           = (g, Inl (ValueError ''Invalid Number of Power Pills''))"
    by (simp add: modif_funcs_def startswith_def int_last_def)
  show "modif_funcs g [Str ''power2'']
           = (g\<lparr>NUMBER_POWER_PILLS := 2\<rparr>, Inr ([], [Number_power_pills]))"
    by (simp add: modif_funcs_def startswith_def int_last_def)
  show "call Number_power_pills (g\<lparr>NUMBER_POWER_PILLS := 2\<rparr>) ram
           = Inr (g\<lparr>NUMBER_POWER_PILLS := 2\<rparr>, ram[62 := 0, 95 := 80, 117 := 40])"
    using assms by (simp add: number_power_pills_def)
qed

theorem power_pill_validation_witness:
  "117 < length (replicate 128 (9 :: u8))
   \<and> modif_funcs initial_globals [Str ''power5'']
       = (initial_globals, Inl (ValueError ''Invalid Number of Power Pills''))
   \<and> modif_funcs initial_globals [Str ''power2'']
       = (initial_globals\<lparr>NUMBER_POWER_PILLS := 2\<rparr>, Inr ([], [Number_power_pills]))
   \<and> call Number_power_pills (initial_globals\<lparr>NUMBER_POWER_PILLS := 2\<rparr>) (replicate 128 9)
       = Inr (initial_globals\<lparr>NUMBER_POWER_PILLS := 2\<rparr>,
              (replicate 128 9)[62 := 0, 95 := 80, 117 := 40])"
  using power_pill_validation [of "replicate 128 9" initial_globals "[]"]
  by simp

lemma modif_funcs_for_no_edible:
  assumes "modif_funcs_for modifs g step_modifs reset_modifs = (g', Inr (steps, resets))"
    and "Edible_ghosts \<notin> set step_modifs"
  shows "Edible_ghosts \<notin> set steps"
  using assms
proof (induction modifs arbitrary: g step_modifs reset_modifs)
  case Nil
  then show ?case by simp
next
  case (Cons m modifs)
  show ?case
  proof (cases m)
    case (Str s)
    with Cons.prems Cons.IH show ?thesis
      by (auto simp: startswith_def split: if_splits sum.splits bool.splits)
  next
    case (Func f)
    with Cons.prems show ?thesis
      by (simp add: startswith_def)
  qed
qed

text \<open>
  Claim C9 (the branch \<open>mod == edible_ghosts\<close> never matches): whenever \<open>modif_funcs\<close>
  returns its two lists, the list of step callbacks does not contain \<open>edible_ghosts\<close>.
  This holds for every list of names: a string is never equal to the function object,
  and the function object itself, passed as an element, fails at \<open>startswith\<close> before
  the comparison is reached.  The always-edible rule cannot be configured.
\<close>

theorem edible_ghosts_branch_dead:
  assumes "modif_funcs g modifs = (g', Inr (step_modifs, reset_modifs))"
  shows "Edible_ghosts \<notin> set step_modifs"
  using assms modif_funcs_for_no_edible [of modifs g "[]" "[]"]
  by (simp add: modif_funcs_def)

theorem edible_ghosts_branch_dead_witness:
  "modif_funcs initial_globals [Str ''edible_ghosts'', Str ''disable_red'', Str ''inverted'']
     = (initial_globals\<lparr>TOGGLE_RED := True\<rparr>,
        Inr ([Static_ghosts, Inverted_ms_pacman], [Inverted_ms_pacman_reset]))
   \<and> Edible_ghosts \<notin> set [Static_ghosts, Inverted_ms_pacman]"
proof -
  have run: "modif_funcs initial_globals
       [Str ''edible_ghosts'', Str ''disable_red'', Str ''inverted'']
     = (initial_globals\<lparr>TOGGLE_RED := True\<rparr>,
        Inr ([Static_ghosts, Inverted_ms_pacman], [Inverted_ms_pacman_reset]))"
    by (simp add: modif_funcs_def startswith_def)
  from edible_ghosts_branch_dead [OF run] run show ?thesis by simp
qed

end
